theory Spec2Isabelle
  imports Complex_Main
begin

section \<open>Python strings\<close>

text \<open>
  A Python \<open>str\<close> is modelled as a \<open>string\<close> whose characters are the code points
  below 256, one \<open>char\<close> per code point, so that \<open>length\<close> is Python's \<open>len\<close>.
  The classifications below are CPython's for that range: \<open>str.isspace\<close> (which is
  also what \<open>str.strip\<close> and the regular expression class \<open>\s\<close> use), \<open>str.lower\<close>,
  and the upper-casing of the letters whose capital is again below 256.
\<close>

definition py_isspace :: "char \<Rightarrow> bool" where
  "py_isspace c =
     (let n = (of_char c :: nat)
      in (9 \<le> n \<and> n \<le> 13) \<or> (28 \<le> n \<and> n \<le> 32) \<or> n = 133 \<or> n = 160)"

definition is_upper :: "char \<Rightarrow> bool" where
  "is_upper c =
     (let n = (of_char c :: nat)
      in (65 \<le> n \<and> n \<le> 90) \<or> (192 \<le> n \<and> n \<le> 222 \<and> n \<noteq> 215))"

definition is_lower :: "char \<Rightarrow> bool" where
  "is_lower c =
     (let n = (of_char c :: nat)
      in (97 \<le> n \<and> n \<le> 122) \<or> (224 \<le> n \<and> n \<le> 254 \<and> n \<noteq> 247))"

text \<open>Upper and lower case differ in bit 5 (value 32) throughout the range.\<close>

definition lower_char :: "char \<Rightarrow> char" where
  "lower_char c =
     (if is_upper c
      then Char (digit0 c) (digit1 c) (digit2 c) (digit3 c) (digit4 c) True (digit6 c) (digit7 c)
      else c)"

definition upper_char :: "char \<Rightarrow> char" where
  "upper_char c =
     (if is_lower c
      then Char (digit0 c) (digit1 c) (digit2 c) (digit3 c) (digit4 c) False (digit6 c) (digit7 c)
      else c)"

definition py_lower :: "string \<Rightarrow> string" where
  "py_lower s = map lower_char s"

text \<open>\<open>s.capitalize()\<close>: the first character upper-cased, the others lower-cased.\<close>

definition py_capitalize :: "string \<Rightarrow> string" where
  "py_capitalize s = (case s of [] \<Rightarrow> [] | c # cs \<Rightarrow> upper_char c # py_lower cs)"

definition py_strip :: "string \<Rightarrow> string" where
  "py_strip s = rev (dropWhile py_isspace (rev (dropWhile py_isspace s)))"

text \<open>\<open>s.startswith(p)\<close>.\<close>

fun startswith :: "string \<Rightarrow> string \<Rightarrow> bool" where
  "startswith s [] = True"
| "startswith [] (p # ps) = False"
| "startswith (c # cs) (p # ps) = (c = p \<and> startswith cs ps)"

text \<open>\<open>sub in s\<close>: \<open>sub\<close> occurs in \<open>s\<close> as a contiguous run.\<close>

fun str_in :: "string \<Rightarrow> string \<Rightarrow> bool" where
  "str_in sub [] = (sub = [])"
| "str_in sub (c # cs) = (startswith (c # cs) sub \<or> str_in sub cs)"

text \<open>\<open>s.count(sub)\<close> for a one-character \<open>sub\<close>.\<close>

definition count_char :: "char \<Rightarrow> string \<Rightarrow> nat" where
  "count_char c s = length (filter (\<lambda>d. d = c) s)"

text \<open>
  \<open>s.replace(old, new)\<close>: every occurrence of \<open>old\<close>, found left to right without
  overlap, becomes \<open>new\<close>. The counter is the number of characters of the occurrence
  just replaced that are still to be skipped. An empty \<open>old\<close> matches before every
  character and at the end.
\<close>

fun replace_scan :: "string \<Rightarrow> string \<Rightarrow> nat \<Rightarrow> string \<Rightarrow> string" where
  "replace_scan old new k [] = []"
| "replace_scan old new k (c # cs) =
     (if 0 < k then replace_scan old new (k - 1) cs
      else if startswith (c # cs) old then new @ replace_scan old new (length old - 1) cs
      else c # replace_scan old new 0 cs)"

definition py_replace :: "string \<Rightarrow> string \<Rightarrow> string \<Rightarrow> string" where
  "py_replace old new s =
     (if old = [] then new @ concat (map (\<lambda>c. c # new) s) else replace_scan old new 0 s)"

section \<open>Conversation turns\<close>

text \<open>
  A turn as \<open>get_conversation_history\<close> returns it: a dict with the keys \<open>role\<close>,
  \<open>content\<close>, \<open>intent\<close>, \<open>persona\<close>, \<open>timestamp\<close> and \<open>metadata\<close>. A nullable column is an
  \<open>option\<close>. The metadata dict maps strings to strings and keeps insertion order: an
  association list read with \<open>map_of\<close>. A timestamp is SQLite's \<open>CURRENT_TIMESTAMP\<close>,
  the clock in whole seconds.
\<close>

type_synonym metadata = "(string \<times> string) list"

record turn =
  role :: string
  content :: string
  intent :: "string option"
  persona :: "string option"
  timestamp :: nat
  metadata :: metadata

section \<open>conversation\_manager.py: reference resolution\<close>

text \<open>
  The scan of \<open>resolve_references\<close> over \<open>reversed(history)\<close>: the first assistant
  turn with a non-empty metadata dict that has the key \<open>company_name\<close> ends the loop.
\<close>

fun last_company_scan :: "turn list \<Rightarrow> string option" where
  "last_company_scan [] = None"
| "last_company_scan (msg # msgs) =
     (if role msg = ''assistant'' \<and> metadata msg \<noteq> []
      then (case map_of (metadata msg) ''company_name'' of
              Some c \<Rightarrow> Some c
            | None \<Rightarrow> last_company_scan msgs)
      else last_company_scan msgs)"

definition references :: "string list" where
  "references =
     [''it'', ''that company'', ''this company'', ''the company'', ''them'', ''that one'',
      ''this one'']"

text \<open>
  One pass of the replacement loop. \<open>prompt_lower\<close> is computed once, before the loop,
  from the prompt as it came in; the replacements act on the prompt as rewritten so far.
\<close>

definition replace_reference :: "string \<Rightarrow> string \<Rightarrow> string \<Rightarrow> string \<Rightarrow> string" where
  "replace_reference prompt_lower last_company prompt ref =
     (if str_in ref prompt_lower
      then py_replace (py_capitalize ref) last_company (py_replace ref last_company prompt)
      else prompt)"

definition resolve_references :: "string \<Rightarrow> turn list \<Rightarrow> string" where
  "resolve_references prompt history =
     (if history = [] then prompt
      else case last_company_scan (rev history) of
             None \<Rightarrow> prompt
           | Some last_company \<Rightarrow>
               if last_company = [] then prompt
               else foldl (replace_reference (py_lower prompt) last_company) prompt references)"

section \<open>Regular expressions\<close>

text \<open>
  The fragment of Python's \<open>re\<close> that the source uses, with its backtracking order.
  \<open>Rep greedy c n\<close> repeats the one-character class \<open>c\<close> at least \<open>n\<close> times:
  \<open>c*\<close>, \<open>c+\<close> and \<open>c{n,}\<close> when greedy, \<open>c+?\<close> when lazy. \<open>Opt\<close> is the greedy \<open>?\<close>,
  \<open>Group\<close> the capturing group 1, \<open>Bol\<close> and \<open>Eol\<close> are \<open>^\<close> and \<open>$\<close> without
  \<open>re.MULTILINE\<close> (\<open>$\<close> also matches before a final newline).

  A match state is the position reached, the text still ahead and the capture made so
  far. \<open>rmatch\<close> lists the states in which a pattern can end, in the order in which the
  backtracking matcher tries them, so that the matcher's answer is the head of the list.
  The flag is \<open>re.IGNORECASE\<close>.
\<close>

datatype regex =
    Lit string
  | Cls "char \<Rightarrow> bool"
  | Rep bool "char \<Rightarrow> bool" nat
  | Seq regex regex
  | Alt regex regex
  | Opt regex
  | Group regex
  | Bol
  | Eol

type_synonym mstate = "nat \<times> string \<times> string option"

definition lit_eq :: "bool \<Rightarrow> string \<Rightarrow> string \<Rightarrow> bool" where
  "lit_eq ic l s = (if ic then py_lower l = py_lower s else l = s)"

fun rmatch :: "bool \<Rightarrow> regex \<Rightarrow> mstate \<Rightarrow> mstate list" where
  "rmatch ic (Lit l) (p, s, g) =
     (if length l \<le> length s \<and> lit_eq ic l (take (length l) s)
      then [(p + length l, drop (length l) s, g)] else [])"
| "rmatch ic (Cls c) (p, s, g) =
     (case s of [] \<Rightarrow> [] | x # xs \<Rightarrow> if c x then [(Suc p, xs, g)] else [])"
| "rmatch ic (Rep greedy c n) (p, s, g) =
     (let ks = [n..<Suc (length (takeWhile c s))]
      in map (\<lambda>k. (p + k, drop k s, g)) (if greedy then rev ks else ks))"
| "rmatch ic (Seq a b) st = concat (map (rmatch ic b) (rmatch ic a st))"
| "rmatch ic (Alt a b) st = rmatch ic a st @ rmatch ic b st"
| "rmatch ic (Opt a) st = rmatch ic a st @ [st]"
| "rmatch ic (Group a) (p, s, g) =
     map (\<lambda>(p', s', g'). (p', s', Some (take (p' - p) s))) (rmatch ic a (p, s, g))"
| "rmatch ic Bol (p, s, g) = (if p = 0 then [(p, s, g)] else [])"
| "rmatch ic Eol (p, s, g) = (if s = [] \<or> s = [CHR 0x0A] then [(p, s, g)] else [])"

definition first_match :: "bool \<Rightarrow> regex \<Rightarrow> nat \<Rightarrow> string \<Rightarrow> mstate option" where
  "first_match ic r p s = (case rmatch ic r (p, s, None) of [] \<Rightarrow> None | m # ms \<Rightarrow> Some m)"

text \<open>\<open>re.match\<close> tries position 0 only; \<open>re.search\<close> tries every position, leftmost first.\<close>

definition re_match :: "bool \<Rightarrow> regex \<Rightarrow> string \<Rightarrow> mstate option" where
  "re_match ic r s = first_match ic r 0 s"

fun search_from :: "bool \<Rightarrow> regex \<Rightarrow> nat \<Rightarrow> string \<Rightarrow> mstate option" where
  "search_from ic r p [] = first_match ic r p []"
| "search_from ic r p (c # cs) =
     (case first_match ic r p (c # cs) of
        Some m \<Rightarrow> Some m
      | None \<Rightarrow> search_from ic r (Suc p) cs)"

definition re_search :: "bool \<Rightarrow> regex \<Rightarrow> string \<Rightarrow> mstate option" where
  "re_search ic r s = search_from ic r 0 s"

text \<open>\<open>match.group(1)\<close>.\<close>

definition group1 :: "mstate \<Rightarrow> string" where
  "group1 m = (case snd (snd m) of Some g \<Rightarrow> g | None \<Rightarrow> [])"

text \<open>
  \<open>re.sub(r'\s+', ' ', text)\<close>: every maximal run of whitespace becomes one space.
  The flag says that the previous character was whitespace.
\<close>

fun collapse_whitespace :: "bool \<Rightarrow> string \<Rightarrow> string" where
  "collapse_whitespace prev [] = []"
| "collapse_whitespace prev (c # cs) =
     (if py_isspace c
      then (if prev then collapse_whitespace True cs
            else CHR '' '' # collapse_whitespace True cs)
      else c # collapse_whitespace False cs)"

subsection \<open>Character classes of the source's patterns\<close>

definition is_digit :: "char \<Rightarrow> bool" where
  "is_digit c = (let n = (of_char c :: nat) in 48 \<le> n \<and> n \<le> 57)"

definition is_ascii_letter :: "char \<Rightarrow> bool" where
  "is_ascii_letter c =
     (let n = (of_char c :: nat) in (65 \<le> n \<and> n \<le> 90) \<or> (97 \<le> n \<and> n \<le> 122))"

text \<open>\<open>[bcdfghjklmnpqrstvwxyz]\<close>\<close>

definition is_consonant :: "char \<Rightarrow> bool" where
  "is_consonant c = (c \<in> set ''bcdfghjklmnpqrstvwxyz'')"

text \<open>\<open>[a-zA-Z0-9\s&.]\<close>\<close>

definition name_char :: "char \<Rightarrow> bool" where
  "name_char c =
     (is_ascii_letter c \<or> is_digit c \<or> py_isspace c \<or> c = CHR ''&'' \<or> c = CHR ''.'')"

text \<open>\<open>[^a-zA-Z0-9\s]\<close>\<close>

definition special_char :: "char \<Rightarrow> bool" where
  "special_char c = (\<not> (is_ascii_letter c \<or> is_digit c \<or> py_isspace c))"

text \<open>The dot: any character but a newline.\<close>

definition any_char :: "char \<Rightarrow> bool" where
  "any_char c = (c \<noteq> CHR 0x0A)"

section \<open>input\_validator.py\<close>

text \<open>The three-part results \<open>(flag, message, list)\<close> are Python's tuples.\<close>

definition OUT_OF_SCOPE_KEYWORDS :: "string list" where
  "OUT_OF_SCOPE_KEYWORDS =
     [''stock price'', ''predict'', ''forecast'', ''guarantee'',
      ''legal advice'', ''financial advice'', ''investment'',
      ''personal data'', ''private information'', ''hack'',
      ''illegal'', ''unethical'']"

subsection \<open>validate\_company\_name\<close>

text \<open>
  \<open>^test\d*$\<close>, \<open>^asdf+\<close>, \<open>^qwerty\<close>, \<open>^\d+$\<close> and \<open>^[^a-zA-Z0-9\s]+$\<close>, in the
  source's order.
\<close>

definition invalid_patterns :: "regex list" where
  "invalid_patterns =
     [Seq Bol (Seq (Lit ''test'') (Seq (Rep True is_digit 0) Eol)),
      Seq Bol (Seq (Lit ''asd'') (Rep True (\<lambda>c. c = CHR ''f'') 1)),
      Seq Bol (Lit ''qwerty''),
      Seq Bol (Seq (Rep True is_digit 1) Eol),
      Seq Bol (Seq (Rep True special_char 1) Eol)]"

definition validate_company_name :: "string \<Rightarrow> bool \<times> string \<times> string list" where
  "validate_company_name name0 =
     (if name0 = [] \<or> py_strip name0 = []
      then (False, ''Please provide a company name.'', [])
      else
        let name = py_strip name0 in
        if length name < 2
        then (False, ''Company name is too short. Please provide a valid company name.'', [])
        else if length name > 100
        then (False, ''Company name is too long. Please provide a shorter name.'', [])
        else if re_search False (Rep True is_consonant 6) (py_lower name) \<noteq> None
        then (False, ''This doesn't look like a valid company name. Could you clarify?'', [])
        else if list_ex (\<lambda>pattern. re_match False pattern (py_lower name) \<noteq> None)
                  invalid_patterns
        then (False,
              ''This doesn't appear to be a real company name. Please provide a valid company name.'',
              [])
        else (True, ''Valid company name.'', []))"

subsection \<open>detect\_ambiguity\<close>

definition vague_pronouns :: "string list" where
  "vague_pronouns = [''it'', ''that'', ''this'', ''them'', ''those'']"

definition generic_terms :: "string list" where
  "generic_terms =
     [''something'', ''anything'', ''stuff'', ''things'', ''help me'', ''i need'', ''can you'']"

definition brief_questions :: "string list" where
  "brief_questions =
     [''What would you like me to help you with?'',
      ''Are you looking to research a company?'',
      ''Would you like to see what I can do?'']"

definition detect_ambiguity :: "string \<Rightarrow> bool \<times> string \<times> string list" where
  "detect_ambiguity prompt =
     (let prompt_lower = py_strip (py_lower prompt) in
      if length prompt < 5
      then (True, ''Your request is very brief.'', brief_questions)
      else if list_ex (\<lambda>pronoun. startswith prompt_lower pronoun) vague_pronouns
      then (True, ''I'm not sure what you're referring to.'',
            [''Which company are you asking about?'', ''Could you be more specific?''])
      else if list_ex (\<lambda>term. str_in term prompt_lower) generic_terms \<and> length prompt < 30
      then (True, ''Your request is a bit vague.'',
            [''What specific company would you like to research?'',
             ''What information are you looking for?'',
             ''Would you like to see some examples of what I can do?''])
      else if count_char CHR ''?'' prompt > 2
      then (True, ''You've asked multiple questions.'',
            [''Which question would you like me to answer first?'',
             ''Let's tackle these one at a time. What's most important?''])
      else (False, [], []))"

subsection \<open>is\_within\_capabilities\<close>

text \<open>
  \<open>predict.*future\<close>, \<open>guarantee|promise\<close>, \<open>hack|crack|break\<close> and
  \<open>personal.*data|private.*information\<close>, each with its message.
\<close>

definition impossible_patterns :: "(regex \<times> string) list" where
  "impossible_patterns =
     [(Seq (Lit ''predict'') (Seq (Rep True any_char 0) (Lit ''future'')),
       ''I can't predict the future, but I can analyze current trends.''),
      (Alt (Lit ''guarantee'') (Lit ''promise''),
       ''I can't make guarantees, but I can provide data-driven insights.''),
      (Alt (Lit ''hack'') (Alt (Lit ''crack'') (Lit ''break'')),
       ''I can't help with that. I'm designed for legitimate business research.''),
      (Alt (Seq (Lit ''personal'') (Seq (Rep True any_char 0) (Lit ''data'')))
           (Seq (Lit ''private'') (Seq (Rep True any_char 0) (Lit ''information''))),
       ''I only work with publicly available business information.'')]"

definition is_within_capabilities :: "string \<Rightarrow> bool \<times> string \<times> string list" where
  "is_within_capabilities prompt =
     (let prompt_lower = py_lower prompt in
      case find (\<lambda>keyword. str_in keyword prompt_lower) OUT_OF_SCOPE_KEYWORDS of
        Some keyword \<Rightarrow>
          (False,
           ''I can't help with '' @ keyword
             @ ''. I'm designed for company research and account planning.'',
           [''I can research companies and generate account plans'',
            ''I can analyze competitors and market positioning'',
            ''I can help you compare multiple companies''])
      | None \<Rightarrow>
          (case find (\<lambda>(pattern, message). re_search False pattern prompt_lower \<noteq> None)
                  impossible_patterns of
             Some (pattern, message) \<Rightarrow>
               (False, message,
                [''Would you like to research a company instead?'',
                 ''I can help you analyze publicly available business data.''])
           | None \<Rightarrow> (True, [], [])))"

subsection \<open>sanitize\_input and validate\_prompt\<close>

definition sanitize_input :: "string \<Rightarrow> string" where
  "sanitize_input text0 =
     (if text0 = [] then []
      else
        let text1 = collapse_whitespace False text0;
            text2 = py_strip text1;
            text3 = filter (\<lambda>c. (32::nat) \<le> of_char c
                                 \<or> c \<in> set [CHR 0x0A, CHR 0x0D, CHR 0x09]) text2
        in if length text3 > 1000 then take 1000 text3 else text3)"

definition validate_prompt :: "string \<Rightarrow> bool \<times> string \<times> string list option" where
  "validate_prompt prompt0 =
     (let prompt = sanitize_input prompt0 in
      if prompt = []
      then (False, ''Please provide a message.'', Some [''What would you like to know?''])
      else
        case is_within_capabilities prompt of
          (is_capable, cap_message, cap_alternatives) \<Rightarrow>
            if \<not> is_capable then (False, cap_message, Some cap_alternatives)
            else
              (case detect_ambiguity prompt of
                 (is_ambiguous, amb_reason, clarifying_questions) \<Rightarrow>
                   if is_ambiguous then (False, amb_reason, Some clarifying_questions)
                   else (True, ''Valid prompt.'', None)))"

subsection \<open>extract\_company\_name\_from\_prompt\<close>

text \<open>
  The common tail of the four patterns, \<open>([a-zA-Z0-9\s&.]+?)(?:\s|$|\.)\<close>: a lazy,
  captured run of name characters, then whitespace, the end or a period.
\<close>

definition name_tail :: regex where
  "name_tail =
     Seq (Group (Rep False name_char 1)) (Alt (Cls py_isspace) (Alt Eol (Lit ''.'')))"

text \<open>\<open>trigger\s+\<close> before that tail.\<close>

definition trigger_pattern :: "string \<Rightarrow> regex" where
  "trigger_pattern trigger = Seq (Lit trigger) (Seq (Rep True py_isspace 1) name_tail)"

text \<open>\<open>find\s+(?:information\s+(?:on|about)\s+)?\<close> before that tail.\<close>

definition find_pattern :: regex where
  "find_pattern =
     Seq (Lit ''find'')
       (Seq (Rep True py_isspace 1)
          (Seq (Opt (Seq (Lit ''information'')
                      (Seq (Rep True py_isspace 1)
                         (Seq (Alt (Lit ''on'') (Lit ''about'')) (Rep True py_isspace 1)))))
               name_tail))"

definition extraction_patterns :: "regex list" where
  "extraction_patterns =
     [trigger_pattern ''research'', trigger_pattern ''tell me about'',
      trigger_pattern ''look up'', find_pattern]"

text \<open>The four \<open>re.search\<close> calls, each returning at once when it matches.\<close>

fun first_extraction :: "regex list \<Rightarrow> string \<Rightarrow> string option" where
  "first_extraction [] prompt = None"
| "first_extraction (pattern # patterns) prompt =
     (case re_search True pattern prompt of
        Some m \<Rightarrow> Some (py_strip (group1 m))
      | None \<Rightarrow> first_extraction patterns prompt)"

definition extract_company_name_from_prompt :: "string \<Rightarrow> string option" where
  "extract_company_name_from_prompt prompt =
     first_extraction extraction_patterns (py_strip prompt)"

section \<open>error\_handler.py\<close>

text \<open>
  An exception is seen by the source through \<open>type(error).__name__\<close> and \<open>str(error)\<close>
  only. What can fail returns \<open>py_exception + 'a\<close>, with \<open>Inl\<close> for a raise.
\<close>

record py_exception =
  type_name :: string
  message :: string

text \<open>
  The function handed to \<open>retry_with_exponential_backoff\<close> is a callable without
  arguments that may act on the world outside: it takes the world and returns its
  outcome and the world after the call. A run records, next to the world, how often
  the callable was invoked and the arguments of the \<open>time.sleep\<close> calls, in order.
  The delays are Python floats; they are computed here over the reals, which is exact
  for the default parameters, whose delays are 1, 2, 4 and 8 capped at 10.
\<close>

type_synonym ('w, 'a) callable = "'w \<Rightarrow> (py_exception + 'a) \<times> 'w"

record 'w run =
  world :: 'w
  calls :: nat
  slept :: "real list"

text \<open>\<open>raise last_exception\<close> when no attempt was made and it is still \<open>None\<close>.\<close>

definition raise_None :: py_exception where
  "raise_None = \<lparr>type_name = ''TypeError'',
                 message = ''exceptions must derive from BaseException''\<rparr>"

text \<open>
  The loop \<open>for attempt in range(max_retries + 1)\<close>, over the attempts still to make:
  a call that returns ends the loop with its value; a call that raises is remembered,
  and is followed by a sleep and a longer delay unless it was the last attempt.
\<close>

fun retry_attempts ::
  "('w, 'a) callable \<Rightarrow> int \<Rightarrow> real \<Rightarrow> real \<Rightarrow> int list \<Rightarrow> real \<Rightarrow> py_exception option
   \<Rightarrow> 'w run \<Rightarrow> (py_exception + 'a) \<times> 'w run" where
  "retry_attempts func max_retries max_delay exponential_base [] delay last_exception r =
     (case last_exception of Some e \<Rightarrow> (Inl e, r) | None \<Rightarrow> (Inl raise_None, r))"
| "retry_attempts func max_retries max_delay exponential_base (attempt # attempts) delay
     last_exception r =
     (case func (world r) of
        (Inr v, w) \<Rightarrow> (Inr v, r\<lparr>world := w, calls := Suc (calls r)\<rparr>)
      | (Inl e, w) \<Rightarrow>
          if attempt < max_retries
          then retry_attempts func max_retries max_delay exponential_base attempts
                 (min (delay * exponential_base) max_delay) (Some e)
                 (r\<lparr>world := w, calls := Suc (calls r), slept := slept r @ [delay]\<rparr>)
          else retry_attempts func max_retries max_delay exponential_base attempts
                 delay (Some e) (r\<lparr>world := w, calls := Suc (calls r)\<rparr>))"

definition retry_with_exponential_backoff ::
  "('w, 'a) callable \<Rightarrow> int \<Rightarrow> real \<Rightarrow> real \<Rightarrow> real \<Rightarrow> 'w run
   \<Rightarrow> (py_exception + 'a) \<times> 'w run" where
  "retry_with_exponential_backoff func max_retries initial_delay max_delay exponential_base r =
     retry_attempts func max_retries max_delay exponential_base [0..max_retries]
       initial_delay None r"

text \<open>The call with the defaults \<open>max_retries=3, initial_delay=1.0, max_delay=10.0,
  exponential_base=2.0\<close>.\<close>

definition retry_default :: "('w, 'a) callable \<Rightarrow> 'w run \<Rightarrow> (py_exception + 'a) \<times> 'w run" where
  "retry_default func r = retry_with_exponential_backoff func 3 1 10 2 r"

text \<open>The decorator \<open>with_retry(max_retries, initial_delay=1.0)\<close>.\<close>

definition with_retry :: "int \<Rightarrow> ('w, 'a) callable \<Rightarrow> 'w run \<Rightarrow> (py_exception + 'a) \<times> 'w run" where
  "with_retry max_retries func r = retry_with_exponential_backoff func max_retries 1 10 2 r"

text \<open>The world after \<open>n\<close> calls of a callable, whatever their outcomes.\<close>

definition world_after :: "('w, 'a) callable \<Rightarrow> nat \<Rightarrow> 'w \<Rightarrow> 'w" where
  "world_after func n w = ((\<lambda>v. snd (func v)) ^^ n) w"

subsection \<open>get\_user\_friendly\_error\_message\<close>

definition api_key_message :: string where
  "api_key_message = ''I'm having trouble connecting to my AI brain. Please check that your API key is configured correctly in the .env file.''"

definition network_message :: string where
  "network_message = ''I'm having trouble connecting to the internet. Please check your connection and try again.''"

definition rate_limit_message :: string where
  "rate_limit_message = ''I'm being rate limited. Please wait a moment and try again.''"

definition invalid_input_message :: string where
  "invalid_input_message = ''There was an issue with your request. Could you try rephrasing it?''"

definition json_message :: string where
  "json_message = ''I had trouble understanding the response. Let me try again.''"

definition database_message :: string where
  "database_message = ''I encountered a database error. Your data should be safe, but please try again.''"

definition generic_message :: string where
  "generic_message = ''I encountered an unexpected error. Please try again, and if the problem persists, check the console for details.''"

definition get_user_friendly_error_message :: "py_exception \<Rightarrow> string" where
  "get_user_friendly_error_message error =
     (let error_str = py_lower (message error);
          error_type = type_name error
      in if str_in ''api key'' error_str \<or> str_in ''authentication'' error_str
            \<or> str_in ''unauthorized'' error_str
         then api_key_message
         else if str_in ''connection'' error_str \<or> str_in ''timeout'' error_str
            \<or> str_in ''network'' error_str
         then network_message
         else if str_in ''rate limit'' error_str \<or> str_in ''too many requests'' error_str
         then rate_limit_message
         else if str_in ''invalid'' error_str \<or> str_in ''validation'' error_str
         then invalid_input_message
         else if str_in ''json'' error_str \<or> error_type = ''JSONDecodeError''
         then json_message
         else if str_in ''database'' error_str \<or> str_in ''sqlite'' error_str
         then database_message
         else generic_message)"

text \<open>The seven fixed replies; no other text is ever produced.\<close>

definition canned_messages :: "string list" where
  "canned_messages =
     [api_key_message, network_message, rate_limit_message, invalid_input_message,
      json_message, database_message, generic_message]"


section \<open>conversation\_manager.py: persona and intent\<close>

definition PERSONA_CONFUSED :: string where "PERSONA_CONFUSED = ''confused''"
definition PERSONA_EFFICIENT :: string where "PERSONA_EFFICIENT = ''efficient''"
definition PERSONA_CHATTY :: string where "PERSONA_CHATTY = ''chatty''"
definition PERSONA_EDGE_CASE :: string where "PERSONA_EDGE_CASE = ''edge_case''"
definition PERSONA_UNKNOWN :: string where "PERSONA_UNKNOWN = ''unknown''"

definition INTENT_RESEARCH :: string where "INTENT_RESEARCH = ''research''"
definition INTENT_UPDATE :: string where "INTENT_UPDATE = ''update''"
definition INTENT_CLARIFY :: string where "INTENT_CLARIFY = ''clarify''"
definition INTENT_CHAT :: string where "INTENT_CHAT = ''chat''"
definition INTENT_OFF_TOPIC :: string where "INTENT_OFF_TOPIC = ''off_topic''"
definition INTENT_HELP :: string where "INTENT_HELP = ''help''"

definition vague_terms :: "string list" where
  "vague_terms =
     [''help'', ''something'', ''maybe'', ''not sure'', ''don't know'', ''what can'', ''how do'']"

definition off_topic_terms :: "string list" where
  "off_topic_terms = [''by the way'', ''anyway'', ''also'', ''oh'', ''hmm'', ''interesting'']"

definition direct_commands :: "string list" where
  "direct_commands = [''research'', ''update'', ''change'', ''generate'', ''find'', ''show'']"

text \<open>
  \<open>sum(1 for msg in user_messages for term in terms if p(term, msg))\<close>: the number of
  pairs of a message and a term for which the test holds.
\<close>

definition count_pairs :: "(string \<Rightarrow> string \<Rightarrow> bool) \<Rightarrow> string list \<Rightarrow> turn list \<Rightarrow> nat" where
  "count_pairs p terms msgs =
     length (concat (map (\<lambda>msg. filter (\<lambda>term. p term (content msg)) terms) msgs))"

text \<open>
  The decision of \<open>detect_user_persona\<close> on the user messages, of which there are at
  least two. The averages and ratios are Python floats; they are computed here over
  the reals, and \<open>0.6\<close>, \<open>0.7\<close> and \<open>0.8\<close> are the decimal fractions.
\<close>

definition persona_of_user_messages :: "turn list \<Rightarrow> string" where
  "persona_of_user_messages user_messages =
     (let n = real (length user_messages);
          avg_length = real (sum_list (map (\<lambda>msg. length (content msg)) user_messages)) / n;
          question_count = length (filter (\<lambda>msg. str_in ''?'' (content msg)) user_messages);
          question_ratio = real question_count / n;
          vague_count =
            count_pairs (\<lambda>term c. str_in term (py_lower c)) vague_terms user_messages;
          off_topic_count =
            count_pairs (\<lambda>term c. str_in term (py_lower c)) off_topic_terms user_messages;
          direct_count =
            count_pairs (\<lambda>cmd c. startswith (py_lower c) cmd) direct_commands user_messages
      in if 2 \<le> vague_count \<or> question_ratio > 6 / 10 then PERSONA_CONFUSED
         else if avg_length < 30 \<and> real direct_count \<ge> n * (7 / 10) then PERSONA_EFFICIENT
         else if avg_length > 100 \<or> 2 \<le> off_topic_count then PERSONA_CHATTY
         else if length user_messages > 5 \<and> question_ratio > 8 / 10 then PERSONA_CONFUSED
         else PERSONA_UNKNOWN)"

definition detect_user_persona :: "turn list \<Rightarrow> string" where
  "detect_user_persona history =
     (if history = [] then PERSONA_UNKNOWN
      else
        let user_messages = filter (\<lambda>msg. role msg = ''user'') history in
        if length user_messages < 2 then PERSONA_UNKNOWN
        else persona_of_user_messages user_messages)"

text \<open>
  \<open>with_inserted h h'\<close>: the history \<open>h'\<close> is \<open>h\<close> with turns whose role is not
  \<open>user\<close> inserted, any number of them at any positions.
\<close>

fun with_inserted :: "turn list \<Rightarrow> turn list \<Rightarrow> bool" where
  "with_inserted [] h' = list_all (\<lambda>t. role t \<noteq> ''user'') h'"
| "with_inserted (x # xs) [] = False"
| "with_inserted (x # xs) (y # ys) =
     ((x = y \<and> with_inserted xs ys) \<or> (role y \<noteq> ''user'' \<and> with_inserted (x # xs) ys))"

definition help_keywords :: "string list" where
  "help_keywords = [''what can you'', ''how do i'', ''help'', ''capabilities'', ''what do you do'']"

definition research_keywords :: "string list" where
  "research_keywords = [''research'', ''find information'', ''look up'', ''tell me about'', ''analyze'']"

definition update_keywords :: "string list" where
  "update_keywords = [''update'', ''change'', ''modify'', ''edit'', ''set'', ''fix'']"

definition clarify_keywords :: "string list" where
  "clarify_keywords = [''what do you mean'', ''can you explain'', ''i don't understand'', ''clarify'']"

definition off_topic_keywords :: "string list" where
  "off_topic_keywords = [''weather'', ''news'', ''joke'', ''story'', ''how are you'']"

definition classify_intent :: "string \<Rightarrow> turn list \<Rightarrow> string" where
  "classify_intent prompt history =
     (let prompt_lower = py_strip (py_lower prompt) in
      if list_ex (\<lambda>keyword. str_in keyword prompt_lower) help_keywords then INTENT_HELP
      else if list_ex (\<lambda>keyword. str_in keyword prompt_lower) research_keywords
      then INTENT_RESEARCH
      else if list_ex (\<lambda>keyword. str_in keyword prompt_lower) update_keywords
      then INTENT_UPDATE
      else if list_ex (\<lambda>keyword. str_in keyword prompt_lower) clarify_keywords
      then INTENT_CLARIFY
      else if list_ex (\<lambda>keyword. str_in keyword prompt_lower) off_topic_keywords
      then INTENT_OFF_TOPIC
      else if length prompt < 20 \<and> str_in ''?'' prompt then INTENT_CHAT
      else
        case find (\<lambda>msg. role msg = ''assistant'') (rev history) of
          Some last_assistant_msg \<Rightarrow>
            if str_in ''?'' (content last_assistant_msg) then INTENT_CLARIFY
            else INTENT_RESEARCH
        | None \<Rightarrow> INTENT_RESEARCH)"

section \<open>The database\<close>

text \<open>
  The SQLite database behind \<open>get_db()\<close> with its three tables. \<open>conversations\<close> is
  the list of its rows in the order of their autoincremented ids; \<open>user_sessions\<close> and
  \<open>accounts\<close> have a text primary key and are maps from it. A \<open>TEXT\<close> column holding
  \<open>json.dumps\<close> of a dict is modelled by the dict under the constructor \<open>Json\<close>, so
  that \<open>json.loads\<close> gives the dict back; \<open>NULL\<close> is \<open>None\<close>. The clock that SQLite
  reads for \<open>CURRENT_TIMESTAMP\<close> (and Python for \<open>datetime.utcnow()\<close>) is an argument
  \<open>now\<close> of every operation that reads it, in whole seconds.
\<close>

datatype json_text = Json metadata

fun json_loads :: "json_text \<Rightarrow> metadata" where
  "json_loads (Json d) = d"

record conversation_row =
  row_session_id :: string
  row_timestamp :: nat
  row_role :: string
  row_content :: string
  row_intent :: "string option"
  row_persona :: "string option"
  row_metadata :: "json_text option"

record session_row =
  created_at :: nat
  last_active :: nat
  interaction_count :: int
  detected_persona :: "string option"
  preferences :: "json_text option"

record account_row =
  account_id :: string
  company_name :: string
  payload :: json_text
  account_created_at :: nat
  account_updated_at :: nat

record db =
  conversations :: "conversation_row list"
  user_sessions :: "string \<Rightarrow> session_row option"
  accounts :: "string \<Rightarrow> account_row option"

definition empty_db :: db where
  "empty_db = \<lparr>conversations = [], user_sessions = (\<lambda>k. None), accounts = (\<lambda>k. None)\<rparr>"

section \<open>conversation\_manager.py: the conversation store\<close>

text \<open>
  \<open>save_conversation_turn\<close>: the \<open>INSERT\<close> into \<open>conversations\<close>, then the upsert of
  the session: a new session starts with count 1 and the turn's persona; an existing
  one gets \<open>last_active\<close>, the count plus one, and the persona unless it is \<open>NULL\<close>.
  \<open>metadata\<close> is the optional dict argument; \<open>None\<close> and the empty dict are stored as
  \<open>NULL\<close>.
\<close>

definition save_conversation_turn ::
  "nat \<Rightarrow> string \<Rightarrow> string \<Rightarrow> string \<Rightarrow> string option \<Rightarrow> string option \<Rightarrow> metadata option
   \<Rightarrow> db \<Rightarrow> db" where
  "save_conversation_turn now session_id role' content' intent' persona' metadata' d =
     (let metadata_json =
            (case metadata' of
               None \<Rightarrow> None
             | Some m \<Rightarrow> if m = [] then None else Some (Json m));
          new_row = \<lparr>row_session_id = session_id, row_timestamp = now, row_role = role',
                     row_content = content', row_intent = intent', row_persona = persona',
                     row_metadata = metadata_json\<rparr>;
          session =
            (case user_sessions d session_id of
               None \<Rightarrow>
                 \<lparr>created_at = now, last_active = now, interaction_count = 1,
                  detected_persona = persona', preferences = None\<rparr>
             | Some s \<Rightarrow>
                 s\<lparr>last_active := now,
                   interaction_count := interaction_count s + 1,
                   detected_persona :=
                     (case persona' of Some p \<Rightarrow> Some p | None \<Rightarrow> detected_persona s)\<rparr>)
      in d\<lparr>conversations := conversations d @ [new_row],
           user_sessions := (user_sessions d)(session_id := Some session)\<rparr>)"

text \<open>
  \<open>ORDER BY timestamp DESC\<close>. SQL leaves the order of rows with equal timestamps
  open. SQLite, for an \<open>ORDER BY\<close> with a \<open>LIMIT\<close>, sorts on the key followed by the
  sequence number of the row in the scan, so that rows with equal timestamps stay in
  the order of the scan, which for this query is the order of the ids: each row of the
  scan is put behind the rows already there that are not older than it.
\<close>

fun insert_desc :: "conversation_row \<Rightarrow> conversation_row list \<Rightarrow> conversation_row list" where
  "insert_desc r [] = [r]"
| "insert_desc r (x # xs) =
     (if row_timestamp x < row_timestamp r then r # x # xs else x # insert_desc r xs)"

definition order_by_timestamp_desc :: "conversation_row list \<Rightarrow> conversation_row list" where
  "order_by_timestamp_desc rows = foldl (\<lambda>sorted r. insert_desc r sorted) [] rows"

text \<open>\<open>LIMIT ?\<close>: a negative limit is no limit.\<close>

definition sql_limit :: "int \<Rightarrow> 'a list \<Rightarrow> 'a list" where
  "sql_limit n rows = (if n < 0 then rows else take (nat n) rows)"

definition turn_of_row :: "conversation_row \<Rightarrow> turn" where
  "turn_of_row r =
     \<lparr>role = row_role r, content = row_content r, intent = row_intent r,
      persona = row_persona r, timestamp = row_timestamp r,
      metadata = (case row_metadata r of Some j \<Rightarrow> json_loads j | None \<Rightarrow> [])\<rparr>"

definition get_conversation_history :: "string \<Rightarrow> int \<Rightarrow> db \<Rightarrow> turn list" where
  "get_conversation_history session_id limit d =
     (let rows = sql_limit limit
                   (order_by_timestamp_desc
                      (filter (\<lambda>r. row_session_id r = session_id) (conversations d)))
      in map turn_of_row (rev rows))"

definition get_session_info :: "string \<Rightarrow> db \<Rightarrow> session_row option" where
  "get_session_info session_id d = user_sessions d session_id"

definition update_session_preferences :: "string \<Rightarrow> metadata \<Rightarrow> db \<Rightarrow> db" where
  "update_session_preferences session_id prefs d =
     (case user_sessions d session_id of
        None \<Rightarrow> d
      | Some s \<Rightarrow>
          d\<lparr>user_sessions := (user_sessions d)(session_id := Some (s\<lparr>preferences := Some (Json prefs)\<rparr>))\<rparr>)"

definition clear_conversation :: "string \<Rightarrow> db \<Rightarrow> db" where
  "clear_conversation session_id d =
     d\<lparr>conversations := filter (\<lambda>r. row_session_id r \<noteq> session_id) (conversations d),
       user_sessions := (user_sessions d)(session_id := None)\<rparr>"

section \<open>database.py: accounts\<close>

text \<open>
  \<open>save_account\<close>: an \<open>INSERT\<close> that, on a conflict of the id, updates the payload
  and \<open>updated_at\<close> of the row that is there, and nothing else.
\<close>

definition save_account :: "nat \<Rightarrow> string \<Rightarrow> string \<Rightarrow> metadata \<Rightarrow> db \<Rightarrow> db" where
  "save_account now id' company_name' payload' d =
     (let row =
            (case accounts d id' of
               None \<Rightarrow>
                 \<lparr>account_id = id', company_name = company_name', payload = Json payload',
                  account_created_at = now, account_updated_at = now\<rparr>
             | Some a \<Rightarrow> a\<lparr>payload := Json payload', account_updated_at := now\<rparr>)
      in d\<lparr>accounts := (accounts d)(id' := Some row)\<rparr>)"

definition load_account :: "string \<Rightarrow> db \<Rightarrow> account_row option" where
  "load_account id' d = accounts d id'"

text \<open>\<open>payload["name"]\<close> of a stored account, if the payload has that key.\<close>

definition payload_name :: "account_row \<Rightarrow> string option" where
  "payload_name a = map_of (json_loads (payload a)) ''name''"

text \<open>
  A call of \<open>save_conversation_turn\<close> with the clock at the time of the call: the time,
  the session id, the role, the content, the intent, the persona and the metadata.
  \<open>save_all\<close> makes a sequence of such calls, in order.
\<close>

type_synonym save_call =
  "nat \<times> string \<times> string \<times> string \<times> string option \<times> string option \<times> metadata option"

fun do_save :: "save_call \<Rightarrow> db \<Rightarrow> db" where
  "do_save (now, session_id, r, c, i, p, m) d = save_conversation_turn now session_id r c i p m d"

definition call_session :: "save_call \<Rightarrow> string" where
  "call_session c = fst (snd c)"

definition save_all :: "save_call list \<Rightarrow> db \<Rightarrow> db" where
  "save_all saves d = fold do_save saves d"

text \<open>The \<open>interaction_count\<close> of a session, 0 when it has no record.\<close>

definition session_count :: "db \<Rightarrow> string \<Rightarrow> int" where
  "session_count d session_id =
     (case user_sessions d session_id of None \<Rightarrow> 0 | Some s \<Rightarrow> interaction_count s)"

text \<open>The number of turns stored for a session.\<close>

definition turns_written :: "db \<Rightarrow> string \<Rightarrow> nat" where
  "turns_written d session_id =
     length (filter (\<lambda>r. row_session_id r = session_id) (conversations d))"

text \<open>Three calls, two of them for the session \<open>s1\<close>, one by each role.\<close>

definition three_calls :: "save_call list" where
  "three_calls =
     [(10, ''s1'', ''user'', ''Research Acme'', Some ''research'', Some ''unknown'', None),
      (10, ''s2'', ''user'', ''hello there'', None, None, None),
      (12, ''s1'', ''assistant'', ''Here is Acme.'', Some ''research'', None,
       Some [(''company_name'', ''Acme'')])]"

text \<open>Turns with a role and a content only, and eleven saves within one second.\<close>

definition user_turn :: "string \<Rightarrow> turn" where
  "user_turn c =
     \<lparr>role = ''user'', content = c, intent = None, persona = None, timestamp = 0,
      metadata = []\<rparr>"

definition assistant_turn :: "string \<Rightarrow> turn" where
  "assistant_turn c =
     \<lparr>role = ''assistant'', content = c, intent = None, persona = None, timestamp = 0,
      metadata = []\<rparr>"

definition eleven_calls :: "save_call list" where
  "eleven_calls =
     [(100, ''s1'', ''user'', ''t01'', None, None, None),
      (100, ''s1'', ''user'', ''t02'', None, None, None),
      (100, ''s1'', ''user'', ''t03'', None, None, None),
      (100, ''s1'', ''user'', ''t04'', None, None, None),
      (100, ''s1'', ''user'', ''t05'', None, None, None),
      (100, ''s1'', ''user'', ''t06'', None, None, None),
      (100, ''s1'', ''user'', ''t07'', None, None, None),
      (100, ''s1'', ''user'', ''t08'', None, None, None),
      (100, ''s1'', ''user'', ''t09'', None, None, None),
      (100, ''s1'', ''user'', ''t10'', None, None, None),
      (100, ''s1'', ''user'', ''t11'', None, None, None)]"

section \<open>llm\_enhanced.py\<close>

text \<open>
  The dict that \<open>process_with_llm_enhanced\<close> returns. A key that is absent reads as the
  route reads it: \<open>company\<close> as \<open>{}\<close>, \<open>needs_clarification\<close> as false. A company is a
  dict like the payload of an account, of which only the name is looked at.
\<close>

record response =
  reply :: string
  company :: metadata
  suggestions :: "string list"
  needs_clarification :: bool

text \<open>
  What \<open>json.loads\<close> makes of the generation collaborator's answer, taken to be a JSON
  object: the keys \<open>reply\<close>, \<open>company\<close> and \<open>suggestions\<close>, each of which may be missing.
\<close>

record llm_result =
  res_reply :: "string option"
  res_company :: "metadata option"
  res_suggestions :: "string list option"

text \<open>
  What the system prompt and the user message of the generation call are formatted
  from: the persona and the intent (which select the instruction texts), the last six
  turns of the history, the outcome of the research, the companies of the session, the
  verbosity preference and the resolved prompt.
\<close>

datatype research_context =
    NoResearch
  | ResearchData string string
  | ResearchFailed string

record 'c generation_request =
  req_persona :: string
  req_intent :: string
  req_recent :: "turn list"
  req_research :: research_context
  req_companies :: "'c list"
  req_verbosity :: string
  req_prompt :: string

text \<open>
  The collaborators outside the source: \<open>get_llm()\<close>, which raises when no API key is
  configured; the model call that extracts a company name from a prompt; the web
  search \<open>extract_info\<close>; the model call that generates the answer, with the parsing
  of its JSON; and the clock. The calls act on a world \<open>'w\<close> of their own.
\<close>

record ('w, 'c) collaborators =
  get_llm :: "py_exception option"
  llm_extract :: "string \<Rightarrow> ('w, string) callable"
  extract_info :: "string \<Rightarrow> ('w, string) callable"
  llm_generate :: "'c generation_request \<Rightarrow> ('w, llm_result) callable"
  clock :: "'w \<Rightarrow> nat"

definition generate_help_response :: "string \<Rightarrow> response" where
  "generate_help_response persona' =
     (if persona' = PERSONA_CONFUSED
      then \<lparr>reply = ''I'm here to help you research companies! Here's what I can do:'' @ [CHR 0x0A, CHR 0x0A] @ ''1. Research any company - Just say 'Research Google' or 'Tell me about Microsoft'' @ [CHR 0x27, CHR 0x0A] @ ''2. Update information - Say 'Update revenue to $280B'' @ [CHR 0x27, CHR 0x0A] @ ''3. Compare companies - Research multiple companies and I'll help you compare'' @ [CHR 0x0A, CHR 0x0A] @ ''What would you like to start with?'',
            company = [],
            suggestions = [''Research a company (e.g., 'Research Apple')'',
                           ''See an example account plan'',
                           ''Learn about comparing companies''],
            needs_clarification = False\<rparr>
      else if persona' = PERSONA_EFFICIENT
      then \<lparr>reply = ''I research companies, generate account plans, and compare options. What company?'',
            company = [],
            suggestions = [''Research [company name]'',
                           ''Compare companies'',
                           ''Generate best plan''],
            needs_clarification = False\<rparr>
      else \<lparr>reply = ''I can help you research companies and create account plans. Just tell me which company you'd like to research, or ask me to compare multiple companies!'',
            company = [],
            suggestions = [''Research a specific company'',
                           ''Compare multiple companies'',
                           ''Update existing information''],
            needs_clarification = False\<rparr>)"

definition generate_off_topic_response :: "string \<Rightarrow> string \<Rightarrow> response" where
  "generate_off_topic_response prompt persona' =
     \<lparr>reply =
        (if persona' = PERSONA_CHATTY
         then ''That's an interesting topic! While I'd love to chat about that, I'm specifically designed to help with company research and account planning. Is there a company you'd like me to research?''
         else ''I'm focused on helping with company research and account planning. Would you like me to research a company for you?''),
      company = [],
      suggestions = [''Research a company'',
                     ''See what I can do'',
                     ''Generate an account plan''],
      needs_clarification = False\<rparr>"

definition generate_contextual_suggestions :: "string \<Rightarrow> 'c list \<Rightarrow> string \<Rightarrow> string list" where
  "generate_contextual_suggestions intent' companies_list persona' =
     (let by_intent =
            (if intent' = INTENT_RESEARCH
             then [''Update specific information'']
                  @ (if 1 \<le> length companies_list
                     then [''Research another company to compare''] else [])
             else if intent' = INTENT_UPDATE
             then [''Research another company'', ''View current account plan'']
             else []);
          by_count =
            (if 2 \<le> length companies_list then [''Generate best plan from all companies'']
             else if length companies_list = 1 then [''Research a competitor'']
             else [''Research your first company''])
      in take 3 (by_intent @ by_count))"

text \<open>
  The answer of the extraction call as the source cleans it:
  \<open>content.strip().replace('"', '').replace("'", "").replace(".", "")\<close>.
\<close>

definition clean_extracted :: "string \<Rightarrow> string" where
  "clean_extracted c =
     py_replace ''.'' [] (py_replace [CHR 0x27] [] (py_replace [CHR 0x22] [] (py_strip c)))"

text \<open>
  The company name that the research is about: for a research intent the name that
  the patterns extract, validated (an invalid name ends the request with a
  clarification), or else the name that the model extracts, asked with two retries,
  and \<open>NONE\<close> when that call fails; \<open>NONE\<close> for the other intents.
\<close>

definition find_company ::
  "('w, 'c) collaborators \<Rightarrow> string \<Rightarrow> string \<Rightarrow> 'w run \<Rightarrow> (response + string) \<times> 'w run" where
  "find_company env intent' resolved_prompt r =
     (let via_llm =
            (case with_retry 2 (llm_extract env resolved_prompt) r of
               (Inr c, r1) \<Rightarrow> (Inr (clean_extracted c), r1)
             | (Inl e, r1) \<Rightarrow> (Inr ''NONE'', r1))
      in if intent' = INTENT_RESEARCH
         then (case extract_company_name_from_prompt resolved_prompt of
                 None \<Rightarrow> via_llm
               | Some extracted_name \<Rightarrow>
                   if extracted_name = [] then via_llm
                   else (case validate_company_name extracted_name of
                           (is_valid_company, company_msg, company_suggestions) \<Rightarrow>
                             if \<not> is_valid_company
                             then (Inl \<lparr>reply = company_msg, company = [],
                                        suggestions = company_suggestions,
                                        needs_clarification = True\<rparr>, r)
                             else (Inr extracted_name, r)))
         else (Inr ''NONE'', r))"

text \<open>The search for a company name that is not \<open>NONE\<close>; a failing search is noted.\<close>

definition do_research ::
  "('w, 'c) collaborators \<Rightarrow> string \<Rightarrow> 'w run \<Rightarrow> research_context \<times> 'w run" where
  "do_research env name r =
     (if name \<noteq> [] \<and> name \<noteq> ''NONE'' \<and> py_lower name \<noteq> ''none''
      then (case extract_info env name (world r) of
              (Inr search_data, w) \<Rightarrow>
                (ResearchData name search_data, r\<lparr>world := w, calls := Suc (calls r)\<rparr>)
            | (Inl e, w) \<Rightarrow> (ResearchFailed name, r\<lparr>world := w, calls := Suc (calls r)\<rparr>))
      else (NoResearch, r))"

text \<open>
  The function up to the generation call. It ends the request (\<open>Done\<close>) with the
  gate's rejection, the help or off-topic answer, the exception of \<open>get_llm()\<close> or the
  rejection of the company name, or it reaches the generation call (\<open>Ready\<close>) with the
  request to make, the database and the world as they are then.
\<close>

datatype ('w, 'c) prepared =
    Done "py_exception + response" db "'w run"
  | Ready "'c generation_request" db "'w run"

definition prepare ::
  "('w, 'c) collaborators \<Rightarrow> string \<Rightarrow> string \<Rightarrow> 'c list option \<Rightarrow> metadata option \<Rightarrow> db
   \<Rightarrow> 'w run \<Rightarrow> ('w, 'c) prepared" where
  "prepare env prompt0 session_id companies_list0 user_preferences0 d r =
     (let companies_list = (case companies_list0 of None \<Rightarrow> [] | Some cl \<Rightarrow> cl);
          user_preferences =
            (case user_preferences0 of
               None \<Rightarrow> [(''verbosity'', ''balanced'')]
             | Some up \<Rightarrow> up);
          prompt = sanitize_input prompt0
      in case validate_prompt prompt of
           (is_valid, validation_message, sugg) \<Rightarrow>
             if \<not> is_valid
             then Done (Inr \<lparr>reply = validation_message, company = [],
                             suggestions = (case sugg of None \<Rightarrow> [] | Some s \<Rightarrow> s),
                             needs_clarification = True\<rparr>) d r
             else
               let history = get_conversation_history session_id 10 d;
                   resolved_prompt = resolve_references prompt history;
                   persona' = detect_user_persona history;
                   intent' = classify_intent resolved_prompt history;
                   d1 = save_conversation_turn (clock env (world r)) session_id ''user'' prompt
                          (Some intent') (Some persona') None d
               in if intent' = INTENT_HELP
                  then let help_response = generate_help_response persona'
                       in Done (Inr help_response)
                            (save_conversation_turn (clock env (world r)) session_id
                               ''assistant'' (reply help_response) (Some intent') None None d1)
                            r
                  else if intent' = INTENT_OFF_TOPIC
                  then let off_topic_response =
                             generate_off_topic_response resolved_prompt persona'
                       in Done (Inr off_topic_response)
                            (save_conversation_turn (clock env (world r)) session_id
                               ''assistant'' (reply off_topic_response) (Some intent') None None
                               d1)
                            r
                  else
                    case get_llm env of
                      Some e \<Rightarrow> Done (Inl e) d1 r
                    | None \<Rightarrow>
                        (case find_company env intent' resolved_prompt r of
                           (Inl rejection, r1) \<Rightarrow> Done (Inr rejection) d1 r1
                         | (Inr name, r1) \<Rightarrow>
                             (case do_research env name r1 of
                                (research, r2) \<Rightarrow>
                                  Ready \<lparr>req_persona = persona', req_intent = intent',
                                         req_recent = drop (length history - 6) history,
                                         req_research = research,
                                         req_companies = companies_list,
                                         req_verbosity =
                                           (case map_of user_preferences ''verbosity'' of
                                              Some v \<Rightarrow> v
                                            | None \<Rightarrow> ''balanced''),
                                         req_prompt = resolved_prompt\<rparr> d1 r2)))"

text \<open>
  The \<open>except\<close> branch around the generation: the exception is mapped to its message,
  which is saved as an assistant turn with the intent \<open>error\<close> and returned as the reply.
\<close>

definition error_suggestions :: "string list" where
  "error_suggestions = [''Try rephrasing your request'', ''Check your API configuration'']"

definition store_error ::
  "('w, 'c) collaborators \<Rightarrow> string \<Rightarrow> py_exception \<Rightarrow> db \<Rightarrow> 'w run
   \<Rightarrow> response \<times> db \<times> 'w run" where
  "store_error env session_id e d r =
     (let error_msg = get_user_friendly_error_message e
      in (\<lparr>reply = error_msg, company = [], suggestions = error_suggestions,
           needs_clarification = False\<rparr>,
          save_conversation_turn (clock env (world r)) session_id ''assistant'' error_msg
            (Some ''error'') None None d,
          r))"

text \<open>\<open>result["reply"]\<close> on a result without that key.\<close>

definition key_error_reply :: py_exception where
  "key_error_reply = \<lparr>type_name = ''KeyError'', message = [CHR 0x27] @ ''reply'' @ [CHR 0x27]\<rparr>"

text \<open>
  The \<open>try\<close> block: the generation, asked with three retries; on a result the
  suggestions are completed, the company's name goes into the metadata, and the reply
  is saved as the assistant's turn.
\<close>

definition finish ::
  "('w, 'c) collaborators \<Rightarrow> string \<Rightarrow> 'c generation_request \<Rightarrow> db \<Rightarrow> 'w run
   \<Rightarrow> response \<times> db \<times> 'w run" where
  "finish env session_id req d r =
     (case with_retry 3 (llm_generate env req) r of
        (Inl e, r1) \<Rightarrow> store_error env session_id e d r1
      | (Inr result, r1) \<Rightarrow>
          let sugg =
                (case res_suggestions result of
                   Some s \<Rightarrow> s
                 | None \<Rightarrow>
                     generate_contextual_suggestions (req_intent req) (req_companies req)
                       (req_persona req));
              name =
                (case res_company result of
                   None \<Rightarrow> None
                 | Some c \<Rightarrow>
                     if c = [] then None
                     else (case map_of c ''name'' of
                             None \<Rightarrow> None
                           | Some n \<Rightarrow> if n = [] then None else Some n));
              metadata' =
                (case name of
                   None \<Rightarrow> []
                 | Some n \<Rightarrow>
                     [(''company_name'', n),
                      (''action'',
                       if req_intent req = INTENT_RESEARCH then ''research'' else ''update'')])
          in case res_reply result of
               None \<Rightarrow> store_error env session_id key_error_reply d r1
             | Some rp \<Rightarrow>
                 (\<lparr>reply = rp,
                   company = (case res_company result of Some c \<Rightarrow> c | None \<Rightarrow> []),
                   suggestions = sugg, needs_clarification = False\<rparr>,
                  save_conversation_turn (clock env (world r1)) session_id ''assistant'' rp
                    (Some (req_intent req)) (Some (req_persona req)) (Some metadata') d,
                  r1))"

definition process_body ::
  "('w, 'c) collaborators \<Rightarrow> string \<Rightarrow> string \<Rightarrow> 'c list option \<Rightarrow> metadata option \<Rightarrow> db
   \<Rightarrow> 'w run \<Rightarrow> (py_exception + response) \<times> db \<times> 'w run" where
  "process_body env prompt0 session_id companies_list0 user_preferences0 d r =
     (case prepare env prompt0 session_id companies_list0 user_preferences0 d r of
        Done outcome d1 r1 \<Rightarrow> (outcome, d1, r1)
      | Ready req d1 r1 \<Rightarrow>
          (case finish env session_id req d1 r1 of (resp, d2, r2) \<Rightarrow> (Inr resp, d2, r2)))"

text \<open>
  The function as decorated with \<open>safe_api_call\<close>: an exception that leaves the body
  becomes the fallback response with the exception's message as the reply.
\<close>

definition process_with_llm_enhanced ::
  "('w, 'c) collaborators \<Rightarrow> string \<Rightarrow> string \<Rightarrow> 'c list option \<Rightarrow> metadata option \<Rightarrow> db
   \<Rightarrow> 'w run \<Rightarrow> response \<times> db \<times> 'w run" where
  "process_with_llm_enhanced env prompt0 session_id companies_list0 user_preferences0 d r =
     (case process_body env prompt0 session_id companies_list0 user_preferences0 d r of
        (Inr resp, d1, r1) \<Rightarrow> (resp, d1, r1)
      | (Inl e, d1, r1) \<Rightarrow>
          (\<lparr>reply = get_user_friendly_error_message e, company = [], suggestions = [],
            needs_clarification = False\<rparr>, d1, r1))"

text \<open>
  Collaborators for a run in which the model is configured, the search returns a
  text, and every model call raises; the world counts the calls and is the clock.
\<close>

definition failing_model :: "(nat, unit) collaborators" where
  "failing_model =
     \<lparr>get_llm = None,
      llm_extract = (\<lambda>p w. (Inl \<lparr>type_name = ''TimeoutError'', message = ''Request timeout''\<rparr>, Suc w)),
      extract_info = (\<lambda>name w. (Inr ''- Acme: a company'', Suc w)),
      llm_generate =
        (\<lambda>req w. (Inl \<lparr>type_name = ''RuntimeError'',
                          message = ''upstream model 0x7f exploded at layer 12''\<rparr>, Suc w)),
      clock = (\<lambda>w. 100 + w)\<rparr>"

text \<open>
  The same collaborators, but the generation raises an exception whose text is the
  single word \<open>connection\<close>.
\<close>

definition connection_model :: "(nat, unit) collaborators" where
  "connection_model =
     failing_model
       \<lparr>llm_generate :=
          (\<lambda>req w. (Inl \<lparr>type_name = ''ConnectionError'', message = ''connection''\<rparr>, Suc w))\<rparr>"

section \<open>Properties\<close>

subsection \<open>Reference resolution\<close>

text \<open>
  C9. With a history of one assistant turn whose metadata is
  \<open>{company_name: "Google"}\<close>, the prompt \<open>"Tell me more about it"\<close> resolves to
  exactly \<open>"Tell me more about Google"\<close>, whatever the other fields of that turn are.
\<close>

theorem resolve_references_google:
  "resolve_references ''Tell me more about it''
     [\<lparr>role = ''assistant'', content = c, intent = i, persona = p, timestamp = t,
       metadata = [(''company_name'', ''Google'')]\<rparr>]
   = ''Tell me more about Google''"
  by (simp add: resolve_references_def references_def replace_reference_def py_replace_def
      py_capitalize_def py_lower_def lower_char_def upper_char_def is_upper_def is_lower_def)

subsection \<open>Company names\<close>

text \<open>
  C1. On the prompt \<open>"Research Acme Corp"\<close> the extractor returns \<open>"Acme"\<close>, not
  \<open>"Acme Corp"\<close>: the lazy run of the first pattern ends at the first whitespace, which
  the terminator \<open>(?:\s|$|\.)\<close> accepts, although the run's class admits whitespace.
  The name \<open>"Acme Corp"\<close> itself validates.
\<close>

theorem extract_company_name_acme:
  "extract_company_name_from_prompt ''Research Acme Corp'' = Some ''Acme''
   \<and> extract_company_name_from_prompt ''Research Acme Corp'' \<noteq> Some ''Acme Corp''
   \<and> validate_company_name ''Acme Corp'' = (True, ''Valid company name.'', [])"
  by code_simp

subsection \<open>The gate on short prompts\<close>








subsection \<open>Retry with exponential backoff\<close>

lemma upto_0_3: "[0..3::int] = [0, 1, 2, 3]"
  by code_simp


lemma world_after_0: "world_after func 0 w = w"
  by (simp add: world_after_def)

lemma world_after_Suc: "world_after func (Suc n) w = snd (func (world_after func n w))"
  by (simp add: world_after_def)

lemma retry_default_all_raise:
  assumes "\<forall>n<4. isl (fst (func (world_after func n (world r))))"
  shows "retry_default func r =
      (fst (func (world_after func 3 (world r))),
       r\<lparr>world := world_after func 4 (world r), calls := calls r + 4,
         slept := slept r @ [1, 2, 4]\<rparr>)"
proof -
  have a0: "isl (fst (func (world_after func 0 (world r))))"
    using assms by simp
  have a1: "isl (fst (func (world_after func (Suc 0) (world r))))"
    using assms by simp
  have a2: "isl (fst (func (world_after func (Suc (Suc 0)) (world r))))"
    using assms by simp
  have a3: "isl (fst (func (world_after func (Suc (Suc (Suc 0))) (world r))))"
    using assms by simp
  obtain e0 w1 where f0: "func (world r) = (Inl e0, w1)"
    using a0 by (cases "func (world r)") (auto simp: world_after_0 isl_def)
  have v1: "world_after func (Suc 0) (world r) = w1"
    by (simp add: world_after_Suc world_after_0 f0)
  obtain e1 w2 where f1: "func w1 = (Inl e1, w2)"
    using a1 unfolding v1 by (cases "func w1") (auto simp: isl_def)
  have v2: "world_after func (Suc (Suc 0)) (world r) = w2"
    using v1 by (simp add: world_after_Suc f1)
  obtain e2 w3 where f2: "func w2 = (Inl e2, w3)"
    using a2 unfolding v2 by (cases "func w2") (auto simp: isl_def)
  have v3: "world_after func (Suc (Suc (Suc 0))) (world r) = w3"
    using v2 by (simp add: world_after_Suc f2)
  obtain e3 w4 where f3: "func w3 = (Inl e3, w4)"
    using a3 unfolding v3 by (cases "func w3") (auto simp: isl_def)
  have v4: "world_after func (Suc (Suc (Suc (Suc 0)))) (world r) = w4"
    using v3 by (simp add: world_after_Suc f3)
  have n3: "world_after func 3 (world r) = w3"
    using v3 by (simp add: numeral_3_eq_3)
  have n4: "world_after func 4 (world r) = w4"
    using v4 by (simp add: eval_nat_numeral)
  have "retry_default func r =
      (Inl e3, r\<lparr>world := w4, calls := calls r + 4, slept := slept r @ [1, 2, 4]\<rparr>)"
    by (simp add: retry_default_def retry_with_exponential_backoff_def upto_0_3 f0 f1 f2 f3)
  then show ?thesis by (simp add: n3 n4 f3)
qed




subsection \<open>The interaction count\<close>

lemma session_count_save:
  "session_count (save_conversation_turn now s r c i p m d) s' =
     (if s' = s then session_count d s + 1 else session_count d s')"
  by (simp add: session_count_def save_conversation_turn_def Let_def split: option.splits)

lemma turns_written_save:
  "turns_written (save_conversation_turn now s r c i p m d) s' =
     (if s' = s then Suc (turns_written d s) else turns_written d s')"
  by (simp add: turns_written_def save_conversation_turn_def Let_def)

lemma session_count_save_all:
  "session_count (save_all saves d) s =
     session_count d s + int (length (filter (\<lambda>c. call_session c = s) saves))"
proof (induction saves arbitrary: d)
  case Nil
  then show ?case by (simp add: save_all_def)
next
  case (Cons a saves)
  obtain now s' r c i p m where a: "a = (now, s', r, c, i, p, m)" by (cases a)
  have "save_all (a # saves) d = save_all saves (do_save a d)" by (simp add: save_all_def)
  then show ?case
    using Cons.IH [of "do_save a d"] by (simp add: a session_count_save call_session_def)
qed

lemma turns_written_save_all:
  "turns_written (save_all saves d) s =
     turns_written d s + length (filter (\<lambda>c. call_session c = s) saves)"
proof (induction saves arbitrary: d)
  case Nil
  then show ?case by (simp add: save_all_def)
next
  case (Cons a saves)
  obtain now s' r c i p m where a: "a = (now, s', r, c, i, p, m)" by (cases a)
  have "save_all (a # saves) d = save_all saves (do_save a d)" by (simp add: save_all_def)
  then show ?case
    using Cons.IH [of "do_save a d"] by (simp add: a turns_written_save call_session_def)
qed

lemma session_missing_save:
  "(user_sessions (save_conversation_turn now s r c i p m d) s' = None)
     = (s' \<noteq> s \<and> user_sessions d s' = None)"
  by (simp add: save_conversation_turn_def Let_def)

lemma session_missing_save_all:
  "(user_sessions (save_all saves d) s = None)
     = ((\<forall>c \<in> set saves. call_session c \<noteq> s) \<and> user_sessions d s = None)"
proof (induction saves arbitrary: d)
  case Nil
  then show ?case by (simp add: save_all_def)
next
  case (Cons a saves)
  obtain now s' r c i p m where a: "a = (now, s', r, c, i, p, m)" by (cases a)
  have step: "save_all (a # saves) d = save_all saves (do_save a d)"
    by (simp add: save_all_def)
  show ?case
    unfolding step Cons.IH
    by (auto simp add: a session_missing_save call_session_def)
qed

text \<open>
  C7. Every call of \<open>save_conversation_turn\<close> adds exactly 1 to the session's
  \<open>interaction_count\<close>, whatever the role of the turn, and creates the record with
  count 1 when the session has none. So for a session without a record and without
  turns (a new session, or one just cleared), after any sequence of saves of which at
  least one is for that session, its \<open>interaction_count\<close> is the number of those saves,
  which is the number of turns written for it.
\<close>

theorem interaction_count_counts_saves:
  "session_count (save_conversation_turn now s r c i p m d) s = session_count d s + 1
   \<and> (user_sessions d s = None
        \<longrightarrow> map_option interaction_count
              (get_session_info s (save_conversation_turn now s r c i p m d)) = Some 1)
   \<and> (user_sessions d s = None \<and> turns_written d s = 0
        \<and> (\<exists>c \<in> set saves. call_session c = s)
        \<longrightarrow> map_option interaction_count (get_session_info s (save_all saves d))
              = Some (int (length (filter (\<lambda>c. call_session c = s) saves)))
            \<and> turns_written (save_all saves d) s
              = length (filter (\<lambda>c. call_session c = s) saves))"
proof -
  have one: "session_count (save_conversation_turn now s r c i p m d) s = session_count d s + 1"
    by (simp add: session_count_save)
  have first: "map_option interaction_count
              (get_session_info s (save_conversation_turn now s r c i p m d)) = Some 1"
    if "user_sessions d s = None"
    using that by (simp add: get_session_info_def save_conversation_turn_def Let_def)
  have many: "map_option interaction_count (get_session_info s (save_all saves d))
              = Some (int (length (filter (\<lambda>c. call_session c = s) saves)))
            \<and> turns_written (save_all saves d) s
              = length (filter (\<lambda>c. call_session c = s) saves)"
    if none: "user_sessions d s = None" and t0: "turns_written d s = 0"
      and ex: "\<exists>c \<in> set saves. call_session c = s"
  proof -
    have "user_sessions (save_all saves d) s \<noteq> None"
      using ex session_missing_save_all [of saves d s] by blast
    then obtain x where x: "user_sessions (save_all saves d) s = Some x" by blast
    have "session_count d s = 0" using none by (simp add: session_count_def)
    then have "session_count (save_all saves d) s
        = int (length (filter (\<lambda>c. call_session c = s) saves))"
      using session_count_save_all [of saves d s] by simp
    then have "interaction_count x = int (length (filter (\<lambda>c. call_session c = s) saves))"
      using x by (simp add: session_count_def)
    then show ?thesis
      using x t0 turns_written_save_all [of saves d s] by (simp add: get_session_info_def)
  qed
  show ?thesis using one first many by blast
qed

theorem interaction_count_counts_saves_witness:
  "user_sessions empty_db ''s1'' = None \<and> turns_written empty_db ''s1'' = 0
   \<and> call_session (hd three_calls) = ''s1''
   \<and> map_option interaction_count (get_session_info ''s1'' (save_all three_calls empty_db)) = Some 2
   \<and> turns_written (save_all three_calls empty_db) ''s1'' = 2
   \<and> map_option interaction_count
        (get_session_info ''s1'' (save_conversation_turn 10 ''s1'' ''assistant'' ''hi'' None None None empty_db))
       = Some 1"
proof -
  have h1: "user_sessions empty_db ''s1'' = None" by (simp add: empty_db_def)
  have h2: "turns_written empty_db ''s1'' = 0" by (simp add: empty_db_def turns_written_def)
  have h3: "\<exists>c \<in> set three_calls. call_session c = ''s1''"
    by (simp add: three_calls_def call_session_def)
  have n: "length (filter (\<lambda>c. call_session c = ''s1'') three_calls) = 2"
    by (simp add: three_calls_def call_session_def)
  have h4: "call_session (hd three_calls) = ''s1''"
    by (simp add: three_calls_def call_session_def)
  show ?thesis
    using interaction_count_counts_saves [of 10 "''s1''" "''assistant''" "''hi''" None None None empty_db three_calls]
      h1 h2 h3 h4 n
    by simp
qed


subsection \<open>Accounts\<close>

text \<open>
  C8. Saving the account \<open>a1\<close> as \<open>"Acme"\<close> and then again, under the same id,
  with the name \<open>"Acme Corp"\<close> in both arguments, leaves a record whose
  \<open>company_name\<close> is still \<open>"Acme"\<close> while its payload's name is \<open>"Acme Corp"\<close>: the
  \<open>ON CONFLICT\<close> clause updates the payload and \<open>updated_at\<close> only. The id is unchanged.
\<close>

theorem save_account_rename:
  "map_option company_name
     (load_account ''a1''
        (save_account 2 ''a1'' ''Acme Corp'' [(''name'', ''Acme Corp'')]
           (save_account 1 ''a1'' ''Acme'' [(''name'', ''Acme'')] empty_db))) = Some ''Acme''
   \<and> Option.bind
       (load_account ''a1''
          (save_account 2 ''a1'' ''Acme Corp'' [(''name'', ''Acme Corp'')]
             (save_account 1 ''a1'' ''Acme'' [(''name'', ''Acme'')] empty_db))) payload_name
       = Some ''Acme Corp''
   \<and> map_option account_id
       (load_account ''a1''
          (save_account 2 ''a1'' ''Acme Corp'' [(''name'', ''Acme Corp'')]
             (save_account 1 ''a1'' ''Acme'' [(''name'', ''Acme'')] empty_db))) = Some ''a1''"
  by (simp add: load_account_def save_account_def empty_db_def payload_name_def)


subsection \<open>The persona depends on the user turns only\<close>

lemma with_inserted_filter:
  "with_inserted h h' \<Longrightarrow>
   filter (\<lambda>msg. role msg = ''user'') h' = filter (\<lambda>msg. role msg = ''user'') h"
proof (induction h h' rule: with_inserted.induct)
  case (1 h')
  then show ?case by (simp add: list_all_iff filter_empty_conv)
next
  case (2 x xs)
  then show ?case by simp
next
  case (3 x xs y ys)
  then show ?case by auto
qed

lemma detect_user_persona_filter:
  "detect_user_persona h =
     (if length (filter (\<lambda>msg. role msg = ''user'') h) < 2 then PERSONA_UNKNOWN
      else persona_of_user_messages (filter (\<lambda>msg. role msg = ''user'') h))"
  by (simp add: detect_user_persona_def Let_def)

text \<open>
  C6. Inserting turns whose role is not \<open>user\<close> into a history, any number of them at
  any positions, leaves the persona that \<open>detect_user_persona\<close> returns unchanged; the
  persona of a history is that of its user turns alone.
\<close>

theorem detect_user_persona_inserted:
  assumes "with_inserted h h'"
  shows "detect_user_persona h' = detect_user_persona h
         \<and> detect_user_persona h
             = detect_user_persona (filter (\<lambda>msg. role msg = ''user'') h)"
  using with_inserted_filter [OF assms] by (simp add: detect_user_persona_filter)

theorem detect_user_persona_inserted_witness:
  "with_inserted [user_turn ''research Acme'', user_turn ''find Tesla'']
     [assistant_turn ''Hello?'', user_turn ''research Acme'',
      assistant_turn ''Done. Anything else?'', assistant_turn ''Still there?'',
      user_turn ''find Tesla'', assistant_turn ''Done.'']
   \<and> detect_user_persona
       [assistant_turn ''Hello?'', user_turn ''research Acme'',
        assistant_turn ''Done. Anything else?'', assistant_turn ''Still there?'',
        user_turn ''find Tesla'', assistant_turn ''Done.''] = ''efficient''
   \<and> detect_user_persona [user_turn ''research Acme'', user_turn ''find Tesla'']
       = ''efficient''"
proof -
  have h: "with_inserted [user_turn ''research Acme'', user_turn ''find Tesla'']
     [assistant_turn ''Hello?'', user_turn ''research Acme'',
      assistant_turn ''Done. Anything else?'', assistant_turn ''Still there?'',
      user_turn ''find Tesla'', assistant_turn ''Done.'']"
    by (simp add: user_turn_def assistant_turn_def)
  have e: "detect_user_persona [user_turn ''research Acme'', user_turn ''find Tesla'']
       = ''efficient''"
    by code_simp
  show ?thesis
    using detect_user_persona_inserted [OF h] h e by simp
qed

subsection \<open>Saving a turn and reading the history\<close>

lemma insert_desc_front:
  "\<forall>x \<in> set xs. row_timestamp x < row_timestamp r \<Longrightarrow> insert_desc r xs = r # xs"
  by (cases xs) simp_all

lemma set_insert_desc: "set (insert_desc r xs) = insert r (set xs)"
  by (induction xs) auto

lemma set_order_by_timestamp_desc: "set (order_by_timestamp_desc rows) = set rows"
proof -
  have "set (foldl (\<lambda>sorted r. insert_desc r sorted) acc rows) = set acc \<union> set rows" for acc
    by (induction rows arbitrary: acc) (auto simp: set_insert_desc)
  then show ?thesis by (simp add: order_by_timestamp_desc_def)
qed

lemma order_by_timestamp_desc_snoc:
  "order_by_timestamp_desc (rows @ [r]) = insert_desc r (order_by_timestamp_desc rows)"
  by (simp add: order_by_timestamp_desc_def)

text \<open>
  When the clock has moved on since the last turn of the session, a saved turn reads
  back as the last, newest entry of the history, with the role, content, intent,
  persona and metadata it was saved with, and \<open>{}\<close> for no metadata.
\<close>

lemma history_after_save_fresh_clock:
  assumes fresh: "\<forall>x \<in> set (conversations d). row_session_id x = s \<longrightarrow> row_timestamp x < now"
    and lim: "0 < limit"
  shows "get_conversation_history s limit (save_conversation_turn now s r c i p m d)
         = map turn_of_row (rev (sql_limit (limit - 1)
              (order_by_timestamp_desc (filter (\<lambda>x. row_session_id x = s) (conversations d)))))
           @ [\<lparr>role = r, content = c, intent = i, persona = p, timestamp = now,
               metadata = (case m of None \<Rightarrow> [] | Some x \<Rightarrow> x)\<rparr>]"
proof -
  let ?old = "filter (\<lambda>x. row_session_id x = s) (conversations d)"
  let ?mj = "(case m of None \<Rightarrow> None | Some x \<Rightarrow> if x = [] then None else Some (Json x))"
  let ?new = "\<lparr>row_session_id = s, row_timestamp = now, row_role = r, row_content = c,
               row_intent = i, row_persona = p, row_metadata = ?mj\<rparr>"
  have rows: "filter (\<lambda>x. row_session_id x = s)
                (conversations (save_conversation_turn now s r c i p m d)) = ?old @ [?new]"
    by (simp add: save_conversation_turn_def Let_def)
  have "\<forall>x \<in> set (order_by_timestamp_desc ?old). row_timestamp x < row_timestamp ?new"
    using fresh by (simp add: set_order_by_timestamp_desc)
  then have sorted:
    "order_by_timestamp_desc (?old @ [?new]) = ?new # order_by_timestamp_desc ?old"
    unfolding order_by_timestamp_desc_snoc by (rule insert_desc_front)
  have lim': "sql_limit limit (?new # ys) = ?new # sql_limit (limit - 1) ys" for ys
    using lim by (cases "nat limit") (auto simp: sql_limit_def nat_diff_distrib)
  have t: "turn_of_row ?new = \<lparr>role = r, content = c, intent = i, persona = p, timestamp = now,
               metadata = (case m of None \<Rightarrow> [] | Some x \<Rightarrow> x)\<rparr>"
    by (simp add: turn_of_row_def split: option.splits)
  show ?thesis
    unfolding get_conversation_history_def rows sorted Let_def lim'
    by (simp add: t)
qed

text \<open>
  C5. The history is ordered by the timestamp, which has a resolution of one second.
  A user turn and the assistant's answer saved within the same second, as a request
  for help saves them, read back with the answer before the question: the rows come
  out of the query oldest first, and reversing them puts the newest first. With
  eleven turns saved within one second the query keeps the ten oldest, and the turn
  saved last is not in the history.
\<close>

theorem history_same_second:
  "get_conversation_history ''s1'' 10
     (save_conversation_turn 100 ''s1'' ''assistant'' ''I can research companies.''
        (Some ''help'') None None
        (save_conversation_turn 100 ''s1'' ''user'' ''help'' (Some ''help'') (Some ''unknown'')
           None empty_db))
   = [\<lparr>role = ''assistant'', content = ''I can research companies.'', intent = Some ''help'',
       persona = None, timestamp = 100, metadata = []\<rparr>,
      \<lparr>role = ''user'', content = ''help'', intent = Some ''help'', persona = Some ''unknown'',
       timestamp = 100, metadata = []\<rparr>]
   \<and> map content (get_conversation_history ''s1'' 10 (save_all eleven_calls empty_db))
       = [''t10'', ''t09'', ''t08'', ''t07'', ''t06'', ''t05'', ''t04'', ''t03'', ''t02'', ''t01'']"
  by code_simp

subsection \<open>The request pipeline\<close>

lemma validate_prompt_invalid_suggestions:
  assumes "validate_prompt p = (False, m, sg)"
  shows "\<exists>s. sg = Some s"
  using assms
  by (auto simp: validate_prompt_def Let_def split: if_splits prod.splits)

text \<open>
  C10. When the gate rejects the sanitized prompt, \<open>process_with_llm_enhanced\<close>
  returns the rejection's message as the reply, the company \<open>{}\<close>, the rejection's
  suggestions and \<open>needs_clarification\<close> true; the database is as it was (no turn is
  saved and no session record is touched) and no collaborator is called.
\<close>

theorem gate_rejection_leaves_store:
  assumes "validate_prompt (sanitize_input prompt) = (False, msg, sugg)"
  shows "\<exists>s. sugg = Some s
           \<and> process_with_llm_enhanced env prompt session_id companies_list user_preferences
               d r
             = (\<lparr>reply = msg, company = [], suggestions = s, needs_clarification = True\<rparr>,
                d, r)"
proof -
  obtain s where s: "sugg = Some s"
    using validate_prompt_invalid_suggestions [OF assms] by blast
  have "prepare env prompt session_id companies_list user_preferences d r
        = Done (Inr \<lparr>reply = msg, company = [], suggestions = s,
                     needs_clarification = True\<rparr>) d r"
    using assms s by (simp add: prepare_def Let_def)
  then show ?thesis
    using s by (simp add: process_with_llm_enhanced_def process_body_def)
qed

theorem gate_rejection_leaves_store_witness:
  "validate_prompt (sanitize_input ''hi'')
     = (False, ''Your request is very brief.'', Some brief_questions)
   \<and> process_with_llm_enhanced failing_model ''hi'' ''s1'' None None empty_db
       \<lparr>world = 0, calls = 0, slept = []\<rparr>
     = (\<lparr>reply = ''Your request is very brief.'', company = [],
          suggestions = brief_questions, needs_clarification = True\<rparr>,
        empty_db, \<lparr>world = 0, calls = 0, slept = []\<rparr>)"
proof -
  have h: "validate_prompt (sanitize_input ''hi'')
     = (False, ''Your request is very brief.'', Some brief_questions)"
    by code_simp
  show ?thesis
    using gate_rejection_leaves_store [OF h, of failing_model "''s1''" None None empty_db
        "\<lparr>world = 0, calls = 0, slept = []\<rparr>"] h
    by auto
qed

lemma error_message_canned: "get_user_friendly_error_message e \<in> set canned_messages"
  by (simp add: get_user_friendly_error_message_def canned_messages_def Let_def)

lemma with_retry_3: "with_retry 3 f r = retry_default f r"
  by (simp add: with_retry_def retry_default_def)

text \<open>
  C4, as stated, fails in its last clause. The message is chosen by a keyword found in
  the exception's text, and the message for network errors contains its own keyword:
  when every attempt of the generation raises an exception whose text is
  \<open>connection\<close>, that text occurs in the reply and in the content of the saved turn.
\<close>

theorem generation_failure_text_counterexample:
  "message \<lparr>type_name = ''ConnectionError'', message = ''connection''\<rparr> = ''connection''
   \<and> fst (llm_generate connection_model
            \<lparr>req_persona = ''unknown'', req_intent = ''research'', req_recent = [],
             req_research = ResearchData ''Acme'' ''- Acme: a company'', req_companies = [],
             req_verbosity = ''balanced'', req_prompt = ''Research Acme''\<rparr> 1)
       = Inl \<lparr>type_name = ''ConnectionError'', message = ''connection''\<rparr>
   \<and> reply (fst (process_with_llm_enhanced connection_model ''Research Acme'' ''s1'' None
         None empty_db \<lparr>world = 0, calls = 0, slept = []\<rparr>)) = network_message
   \<and> map (\<lambda>x. (row_role x, row_content x, row_intent x))
         (conversations (fst (snd (process_with_llm_enhanced connection_model
            ''Research Acme'' ''s1'' None None empty_db \<lparr>world = 0, calls = 0, slept = []\<rparr>))))
       = [(''user'', ''Research Acme'', Some ''research''),
          (''assistant'', network_message, Some ''error'')]
   \<and> str_in ''connection'' network_message"
  by code_simp

text \<open>
  C4, amended. When the request reaches the generation call and each of its four
  attempts raises, the function saves an assistant turn with the intent \<open>error\<close> whose
  content is the message that \<open>get_user_friendly_error_message\<close> maps the last
  exception to, and returns that same message as the reply. The message is one of the
  seven fixed texts: it is selected by the exception, never built from its text.
\<close>

theorem generation_failure_stored:
  assumes ready: "prepare env prompt session_id companies_list user_preferences d r
                  = Ready req d1 r1"
    and fails: "\<forall>n<4. isl (fst (llm_generate env req
                  (world_after (llm_generate env req) n (world r1))))"
  shows "\<exists>e. fst (llm_generate env req (world_after (llm_generate env req) 3 (world r1)))
              = Inl e
          \<and> get_user_friendly_error_message e \<in> set canned_messages
          \<and> process_with_llm_enhanced env prompt session_id companies_list user_preferences
              d r
            = (\<lparr>reply = get_user_friendly_error_message e, company = [],
                 suggestions = error_suggestions, needs_clarification = False\<rparr>,
               save_conversation_turn
                 (clock env (world_after (llm_generate env req) 4 (world r1)))
                 session_id ''assistant'' (get_user_friendly_error_message e)
                 (Some ''error'') None None d1,
               r1\<lparr>world := world_after (llm_generate env req) 4 (world r1),
                  calls := calls r1 + 4, slept := slept r1 @ [1, 2, 4]\<rparr>)"
proof -
  let ?g = "llm_generate env req"
  have "isl (fst (?g (world_after ?g 3 (world r1))))"
    using fails by simp
  then obtain e where e: "fst (?g (world_after ?g 3 (world r1))) = Inl e"
    by (auto simp: isl_def)
  have retry: "retry_default ?g r1 =
      (Inl e, r1\<lparr>world := world_after ?g 4 (world r1), calls := calls r1 + 4,
                 slept := slept r1 @ [1, 2, 4]\<rparr>)"
    using retry_default_all_raise [OF fails] e by simp
  have fin: "finish env session_id req d1 r1 =
      store_error env session_id e d1
        (r1\<lparr>world := world_after ?g 4 (world r1), calls := calls r1 + 4,
            slept := slept r1 @ [1, 2, 4]\<rparr>)"
    by (simp add: finish_def with_retry_3 retry)
  have "process_with_llm_enhanced env prompt session_id companies_list user_preferences d r
        = (case finish env session_id req d1 r1 of (resp, d2, r2) \<Rightarrow> (resp, d2, r2))"
    using ready
    by (simp add: process_with_llm_enhanced_def process_body_def split: prod.splits)
  then show ?thesis
    using e error_message_canned [of e] by (simp add: fin store_error_def Let_def)
qed

theorem generation_failure_stored_witness:
  "reply (fst (process_with_llm_enhanced failing_model ''Research Acme'' ''s1'' None None
       empty_db \<lparr>world = 0, calls = 0, slept = []\<rparr>)) = generic_message
   \<and> map (\<lambda>x. (row_role x, row_content x, row_intent x))
       (conversations (fst (snd (process_with_llm_enhanced failing_model ''Research Acme''
          ''s1'' None None empty_db \<lparr>world = 0, calls = 0, slept = []\<rparr>))))
     = [(''user'', ''Research Acme'', Some ''research''),
        (''assistant'', generic_message, Some ''error'')]
   \<and> \<not> str_in ''exploded'' generic_message"
proof -
  let ?r0 = "\<lparr>world = 0 :: nat, calls = 0, slept = []\<rparr>"
  have "case prepare failing_model ''Research Acme'' ''s1'' None None empty_db ?r0 of
          Done x d r \<Rightarrow> False | Ready q d r \<Rightarrow> True"
    by code_simp
  then obtain req d1 r1 where
    ready: "prepare failing_model ''Research Acme'' ''s1'' None None empty_db ?r0
            = Ready req d1 r1"
    by (cases "prepare failing_model ''Research Acme'' ''s1'' None None empty_db ?r0") auto
  have fails: "\<forall>n<4. isl (fst (llm_generate failing_model req
                  (world_after (llm_generate failing_model req) n (world r1))))"
    by (simp add: failing_model_def)
  have c: "reply (fst (process_with_llm_enhanced failing_model ''Research Acme'' ''s1'' None
       None empty_db ?r0)) = generic_message
   \<and> map (\<lambda>x. (row_role x, row_content x, row_intent x))
       (conversations (fst (snd (process_with_llm_enhanced failing_model ''Research Acme''
          ''s1'' None None empty_db ?r0))))
     = [(''user'', ''Research Acme'', Some ''research''),
        (''assistant'', generic_message, Some ''error'')]
   \<and> \<not> str_in ''exploded'' generic_message"
    by code_simp
  show ?thesis
    using generation_failure_stored [OF ready fails] c by blast
qed

end
